theory Spec2Isabelle
  imports Main
begin

section \<open>The context menu component of contextMenu.tsx\<close>

text \<open>
  The component keeps three state cells (\<open>targetOffset\<close>, \<open>mouseEvent\<close>, \<open>isOpen\<close>),
  renders a Popover when there is a menu to show, and installs a handler for the
  \<open>contextmenu\<close> event. JavaScript numbers are modelled as \<open>int\<close>: pixel coordinates
  are integers far below \<open>2 ^ 53\<close>, where the subtraction of doubles is exact and the
  conversion of a number to a string prints the decimal digits.
\<close>

subsection \<open>Data\<close>

text \<open>\<open>type Offset = { left: number; top: number }\<close>. The second field is written
  \<open>top'\<close>, since \<open>top\<close> is the greatest element of a lattice in HOL.\<close>

record Offset =
  left :: int
  top' :: int

text \<open>
  A \<open>React.MouseEvent\<close> is an object that the handler mutates (\<open>preventDefault\<close>,
  \<open>persist\<close>) and keeps a reference to (\<open>setMouseEvent(e)\<close>). Events live in a store
  and are named by references, so that "the same event" is equality of references.
\<close>

type_synonym event_ref = nat

record MouseEvent =
  clientX :: int
  clientY :: int
  defaultPrevented :: bool
  isPersistent :: bool

text \<open>\<open>interface ContextMenuContentProps\<close>; the three \<open>useState\<close> cells of the component
  are exactly its fields (\<open>contentProps = { isOpen, mouseEvent, targetOffset }\<close>).\<close>

record ContextMenuContentProps =
  isOpen :: bool
  targetOffset :: "Offset option"
  mouseEvent :: "event_ref option"

text \<open>\<open>content: JSX.Element | ((props: ContextMenuContentProps) => JSX.Element) | undefined\<close>.
  The handler's comment allows for a content function that returns an undefined menu,
  hence the \<open>option\<close> in the function's result.\<close>

datatype 'el content =
    ContentUndefined
  | ContentElement 'el
  | ContentFunction "ContextMenuContentProps \<Rightarrow> 'el option"

text \<open>\<open>children: React.ReactNode | ((props: ContextMenuChildrenProps) => React.ReactElement)\<close>;
  the component only asks whether it is a function.\<close>

datatype children = ChildrenNode | ChildrenFunction

fun isFunction :: "children \<Rightarrow> bool" where
  "isFunction ChildrenFunction = True"
| "isFunction ChildrenNode = False"

text \<open>\<open>interface ContextMenuProps\<close>, the fields the logic reads. \<open>'cb\<close> names the
  caller's \<open>onContextMenu\<close> function, \<open>'el\<close> is the type of JSX elements.\<close>

record ('el, 'cb) ContextMenuProps =
  content :: "'el content"
  children :: children
  disabledProp :: "bool option"
  onContextMenu :: "'cb option"
  transitionDurationProp :: "int option"

text \<open>The destructuring default \<open>disabled = false\<close>.\<close>

definition disabled :: "('el, 'cb) ContextMenuProps \<Rightarrow> bool" where
  "disabled p = (case disabledProp p of None \<Rightarrow> False | Some d \<Rightarrow> d)"

text \<open>The Popover element the component creates: its key, its open flag, the menu wrapped
  in its content, and the transition duration (\<open>popoverProps?.transitionDuration ?? 100\<close>).\<close>

record 'el PopoverElement =
  key :: string
  popoverIsOpen :: bool
  popoverMenu :: 'el
  transitionDuration :: int

text \<open>What the handler and the setters act on: the state cells, the store of events, and
  the log of calls of the caller's \<open>onContextMenu\<close>, each with the event it received.\<close>

record 'cb world =
  state :: ContextMenuContentProps
  events :: "event_ref \<Rightarrow> MouseEvent"
  calls :: "('cb \<times> event_ref) list"

text \<open>A DOM element, as far as \<open>closest\<close> and \<open>getBoundingClientRect\<close> read it: its
  class list, the left and top of its bounding rectangle, and its parent.\<close>

datatype Element =
  Element (classList: "string list") (boundingClientRect: Offset) (parentElement: "Element option")

subsection \<open>Operations\<close>

text \<open>The initial values of the \<open>useState\<close> cells.\<close>

definition initialState :: ContextMenuContentProps where
  "initialState = \<lparr>isOpen = False, targetOffset = None, mouseEvent = None\<rparr>"

definition setIsOpen :: "bool \<Rightarrow> 'cb world \<Rightarrow> 'cb world" where
  "setIsOpen b w = w\<lparr>state := (state w)\<lparr>isOpen := b\<rparr>\<rparr>"

definition setMouseEvent :: "event_ref option \<Rightarrow> 'cb world \<Rightarrow> 'cb world" where
  "setMouseEvent e w = w\<lparr>state := (state w)\<lparr>mouseEvent := e\<rparr>\<rparr>"

definition setTargetOffset :: "Offset option \<Rightarrow> 'cb world \<Rightarrow> 'cb world" where
  "setTargetOffset off w = w\<lparr>state := (state w)\<lparr>targetOffset := off\<rparr>\<rparr>"

text \<open>\<open>useEffect(() => { setIsOpen(false); }, [disabled])\<close>: the effect, and the commit of
  a render with new props, which runs the effect when the dependency \<open>disabled\<close> differs
  from the one of the previous render.\<close>

definition disabledEffect :: "'cb world \<Rightarrow> 'cb world" where
  "disabledEffect w = setIsOpen False w"

definition commitProps ::
  "('el, 'cb) ContextMenuProps \<Rightarrow> ('el, 'cb) ContextMenuProps \<Rightarrow> 'cb world \<Rightarrow> 'cb world" where
  "commitProps prev next w = (if disabled next \<noteq> disabled prev then disabledEffect w else w)"

text \<open>\<open>handlePopoverInteraction\<close>.\<close>

definition handlePopoverInteraction :: "bool \<Rightarrow> 'cb world \<Rightarrow> 'cb world" where
  "handlePopoverInteraction nextOpenState w =
     (if \<not> nextOpenState then setMouseEvent None (setIsOpen False w) else w)"

text \<open>
  The template literal \<open>`${targetOffset.left}x${targetOffset.top}`\<close> converts the two
  numbers to strings. For an integer that is its decimal digits, with a minus sign in
  front when it is negative.
\<close>

definition digitChar :: "nat \<Rightarrow> char" where
  "digitChar d =
     (if d = 0 then CHR ''0'' else if d = 1 then CHR ''1'' else if d = 2 then CHR ''2''
      else if d = 3 then CHR ''3'' else if d = 4 then CHR ''4'' else if d = 5 then CHR ''5''
      else if d = 6 then CHR ''6'' else if d = 7 then CHR ''7'' else if d = 8 then CHR ''8''
      else CHR ''9'')"

fun digits :: "nat \<Rightarrow> string" where
  "digits n = (if n < 10 then [digitChar n] else digits (n div 10) @ [digitChar (n mod 10)])"

declare digits.simps [simp del]

definition numberToString :: "int \<Rightarrow> string" where
  "numberToString i = (if i < 0 then CHR ''-'' # digits (nat (- i)) else digits (nat i))"

text \<open>\<open>getPopoverKey\<close>.\<close>

definition getPopoverKey :: "Offset option \<Rightarrow> string" where
  "getPopoverKey off =
     (case off of
        None \<Rightarrow> ''default''
      | Some t \<Rightarrow> numberToString (left t) @ ''x'' @ numberToString (top' t))"

text \<open>The render: \<open>menu\<close> and \<open>maybePopover\<close>, from the props and the state cells of
  that render.\<close>

definition menu :: "('el, 'cb) ContextMenuProps \<Rightarrow> ContextMenuContentProps \<Rightarrow> 'el option" where
  "menu p contentProps =
     (if disabled p then None
      else (case content p of
              ContentFunction f \<Rightarrow> f contentProps
            | ContentElement el \<Rightarrow> Some el
            | ContentUndefined \<Rightarrow> None))"

definition maybePopover ::
  "('el, 'cb) ContextMenuProps \<Rightarrow> ContextMenuContentProps \<Rightarrow> 'el PopoverElement option" where
  "maybePopover p contentProps =
     (case menu p contentProps of
        None \<Rightarrow> None
      | Some m \<Rightarrow>
          Some \<lparr>key = getPopoverKey (targetOffset contentProps),
                popoverIsOpen = isOpen contentProps,
                popoverMenu = m,
                transitionDuration =
                  (case transitionDurationProp p of None \<Rightarrow> 100 | Some d \<Rightarrow> d)\<rparr>)"

text \<open>\<open>Element.closest\<close> for a class selector: the element itself or its nearest ancestor
  that carries the class.\<close>

fun closest :: "string \<Rightarrow> Element \<Rightarrow> Element option" where
  "closest cls (Element cs r p) =
     (if cls \<in> set cs then Some (Element cs r p)
      else (case p of None \<Rightarrow> None | Some q \<Rightarrow> closest cls q))"

text \<open>\<open>getContainingBlockOffset\<close>. The class name
  \<open>Classes.FIXED_POSITIONING_CONTAINING_BLOCK\<close> is defined outside this file and is the
  parameter \<open>marker\<close>.\<close>

definition getContainingBlockOffset :: "string \<Rightarrow> Element option \<Rightarrow> Offset" where
  "getContainingBlockOffset marker targetElement =
     (case targetElement of
        None \<Rightarrow> \<lparr>left = 0, top' = 0\<rparr>
      | Some el \<Rightarrow>
          (case closest marker el of
             None \<Rightarrow> \<lparr>left = 0, top' = 0\<rparr>
           | Some containingBlock \<Rightarrow> boundingClientRect containingBlock))"

text \<open>The two methods of the event that the handler calls.\<close>

definition preventDefault :: "event_ref \<Rightarrow> 'cb world \<Rightarrow> 'cb world" where
  "preventDefault e w = w\<lparr>events := (events w)(e := (events w e)\<lparr>defaultPrevented := True\<rparr>)\<rparr>"

definition persist :: "event_ref \<Rightarrow> 'cb world \<Rightarrow> 'cb world" where
  "persist e w = w\<lparr>events := (events w)(e := (events w e)\<lparr>isPersistent := True\<rparr>)\<rparr>"

text \<open>\<open>onContextMenu?.(e)\<close>: the call is logged with the function and its argument.\<close>

definition callOnContextMenu :: "'cb option \<Rightarrow> event_ref \<Rightarrow> 'cb world \<Rightarrow> 'cb world" where
  "callOnContextMenu cb e w =
     (case cb of None \<Rightarrow> w | Some f \<Rightarrow> w\<lparr>calls := calls w @ [(f, e)]\<rparr>)"

text \<open>
  \<open>handleContextMenu\<close>. The closure reads \<open>disabled\<close>, \<open>children\<close>, \<open>onContextMenu\<close> and
  \<open>maybePopover\<close> of the render that created it (the arguments \<open>p\<close> and \<open>popover\<close>),
  and \<open>containerRef.current\<close> when it runs (the argument \<open>container\<close>).
\<close>

definition handleContextMenu ::
  "string \<Rightarrow> ('el, 'cb) ContextMenuProps \<Rightarrow> 'el PopoverElement option \<Rightarrow> Element option \<Rightarrow>
   event_ref \<Rightarrow> 'cb world \<Rightarrow> 'cb world" where
  "handleContextMenu marker p popover container e w =
     (if defaultPrevented (events w e) then w
      else
        let shouldHandleEvent = \<not> disabled p \<and> (isFunction (children p) \<or> popover \<noteq> None);
            w' =
              (if shouldHandleEvent then
                 let w1 = preventDefault e w;
                     w2 = persist e w1;
                     w3 = setMouseEvent (Some e) w2;
                     off = getContainingBlockOffset marker container;
                     w4 = setTargetOffset
                            (Some \<lparr>left = clientX (events w3 e) - left off,
                                   top' = clientY (events w3 e) - top' off\<rparr>) w3
                 in setIsOpen True w4
               else w)
        in callOnContextMenu (onContextMenu p) e w')"

text \<open>
  The closure that a render with props \<open>p\<close> creates in the world \<open>w\<close>: it holds the
  \<open>maybePopover\<close> of that render. It is the handler in use after the first render and
  after every render in which a dependency of \<open>useCallback\<close> changed.
\<close>

definition renderedHandler ::
  "string \<Rightarrow> ('el, 'cb) ContextMenuProps \<Rightarrow> Element option \<Rightarrow> event_ref \<Rightarrow> 'cb world \<Rightarrow> 'cb world" where
  "renderedHandler marker p container e w =
     handleContextMenu marker p (maybePopover p (state w)) container e w"

text \<open>
  A mounted component. \<open>useCallback(..., [containerRef.current, onContextMenu, disabled])\<close>
  returns the closure of an earlier render while these three dependencies are the same,
  although the closure also reads \<open>children\<close> and \<open>maybePopover\<close>. So the record of
  a component holds, beside the props of the latest render and the world, what the memoised closure
  holds (\<open>handlerProps\<close> for \<open>disabled\<close>, \<open>children\<close> and \<open>onContextMenu\<close>,
  \<open>handlerPopover\<close> for \<open>maybePopover\<close>) and the dependencies it was created with.
\<close>

record ('el, 'cb) component =
  instProps :: "('el, 'cb) ContextMenuProps"
  instWorld :: "'cb world"
  handlerProps :: "('el, 'cb) ContextMenuProps"
  handlerPopover :: "'el PopoverElement option"
  handlerDeps :: "Element option \<times> 'cb option \<times> bool"

text \<open>A render with props \<open>p\<close> while \<open>containerRef.current\<close> is \<open>containerCurrent\<close>:
  the memoised closure is replaced by the one of this render when a dependency differs.\<close>

definition render ::
  "Element option \<Rightarrow> ('el, 'cb) ContextMenuProps \<Rightarrow> ('el, 'cb) component \<Rightarrow> ('el, 'cb) component" where
  "render containerCurrent p i =
     (let deps = (containerCurrent, onContextMenu p, disabled p)
      in if deps = handlerDeps i then i\<lparr>instProps := p\<rparr>
         else i\<lparr>instProps := p, handlerProps := p,
                handlerPopover := maybePopover p (state (instWorld i)), handlerDeps := deps\<rparr>)"

text \<open>The first render: the state cells have their initial values, \<open>containerRef.current\<close>
  is still null, and the effect runs once (where \<open>setIsOpen(false)\<close> changes nothing).
  The world \<open>w\<close> gives the store of events and the log of calls.\<close>

definition mount :: "('el, 'cb) ContextMenuProps \<Rightarrow> 'cb world \<Rightarrow> ('el, 'cb) component" where
  "mount p w =
     \<lparr>instProps = p,
      instWorld = disabledEffect (w\<lparr>state := initialState\<rparr>),
      handlerProps = p,
      handlerPopover = maybePopover p initialState,
      handlerDeps = (None, onContextMenu p, disabled p)\<rparr>"

text \<open>The handler calls the three setters exactly when it passes both of its tests;
  \<open>setTargetOffset\<close> then receives a new object, so React renders the component again.\<close>

definition callsSetters ::
  "('el, 'cb) ContextMenuProps \<Rightarrow> 'el PopoverElement option \<Rightarrow> event_ref \<Rightarrow> 'cb world \<Rightarrow> bool" where
  "callsSetters p popover e w =
     (\<not> defaultPrevented (events w e) \<and> \<not> disabled p \<and>
      (isFunction (children p) \<or> popover \<noteq> None))"

text \<open>
  The life of a mounted component as a run of actions, with \<open>container\<close> the element
  that the ref is attached to after the first render. A \<open>contextmenu\<close> event reaches the
  memoised handler; the Popover reports an interaction; the parent renders the component
  with new props, after which the effect runs if \<open>disabled\<close> changed. React renders the
  component again, with the same props, after an action that changed a state cell.
\<close>

datatype ('el, 'cb) action =
    Trigger event_ref
  | PopoverInteraction bool
  | Rerender "('el, 'cb) ContextMenuProps"

fun step ::
  "string \<Rightarrow> Element option \<Rightarrow> ('el, 'cb) component \<Rightarrow> ('el, 'cb) action \<Rightarrow> ('el, 'cb) component" where
  "step marker container i (Trigger e) =
     (let w = instWorld i;
          i' = i\<lparr>instWorld :=
                  handleContextMenu marker (handlerProps i) (handlerPopover i) container e w\<rparr>
      in if callsSetters (handlerProps i) (handlerPopover i) e w
         then render container (instProps i) i' else i')"
| "step marker container i (PopoverInteraction nextOpenState) =
     (let w = instWorld i;
          w' = handlePopoverInteraction nextOpenState w;
          i' = i\<lparr>instWorld := w'\<rparr>
      in if state w' \<noteq> state w then render container (instProps i) i' else i')"
| "step marker container i (Rerender p') =
     (let i1 = render container p' i;
          w' = commitProps (instProps i) p' (instWorld i1);
          i2 = i1\<lparr>instWorld := w'\<rparr>
      in if state w' \<noteq> state (instWorld i1) then render container p' i2 else i2)"

definition run ::
  "string \<Rightarrow> Element option \<Rightarrow> ('el, 'cb) component \<Rightarrow> ('el, 'cb) action list \<Rightarrow>
   ('el, 'cb) component" where
  "run marker container i acts = foldl (step marker container) i acts"

text \<open>
  Two invariants of runs. When every render has had static content or a render function
  as children, the memoised closure holds such props and the popover of one of these
  renders, and agrees with the latest props on \<open>disabled\<close>.
\<close>

definition opensInvariant :: "('el, 'cb) component \<Rightarrow> bool" where
  "opensInvariant i =
     (disabled (handlerProps i) = disabled (instProps i) \<and>
      snd (snd (handlerDeps i)) = disabled (handlerProps i) \<and>
      ((\<exists>el. content (instProps i) = ContentElement el) \<or> isFunction (children (instProps i))) \<and>
      ((\<exists>el. content (handlerProps i) = ContentElement el) \<or>
       isFunction (children (handlerProps i))) \<and>
      (\<exists>s. handlerPopover i = maybePopover (handlerProps i) s))"


text \<open>The element itself followed by its ancestors, nearest first.\<close>

fun inclusiveAncestors :: "Element \<Rightarrow> Element list" where
  "inclusiveAncestors (Element cs r p) =
     Element cs r p # (case p of None \<Rightarrow> [] | Some q \<Rightarrow> inclusiveAncestors q)"

text \<open>Reading a decimal numeral back.\<close>

definition digitValue :: "char \<Rightarrow> nat" where
  "digitValue c = of_char c - 48"

definition decimalValue :: "string \<Rightarrow> nat" where
  "decimalValue cs = foldl (\<lambda>a c. 10 * a + digitValue c) 0 cs"

subsection \<open>Example inputs\<close>

text \<open>Event 1 is a right click on which a nested target has already called
  \<open>preventDefault\<close>; event 3 is a fresh right click at (60, 50); every other event
  (0, 2, ...) is a fresh right click at (120, 80).\<close>

definition exampleEvents :: "event_ref \<Rightarrow> MouseEvent" where
  "exampleEvents r =
     (if r = 3 then \<lparr>clientX = 60, clientY = 50, defaultPrevented = False, isPersistent = False\<rparr>
      else \<lparr>clientX = 120, clientY = 80, defaultPrevented = (r = 1), isPersistent = False\<rparr>)"

definition exampleWorld :: "string world" where
  "exampleWorld = \<lparr>state = initialState, events = exampleEvents, calls = []\<rparr>"

definition exampleProps :: "(string, string) ContextMenuProps" where
  "exampleProps =
     \<lparr>content = ContentElement ''Menu'', children = ChildrenNode, disabledProp = None,
      onContextMenu = Some ''log'', transitionDurationProp = None\<rparr>"

text \<open>The same props with no content, with a render function as children, and disabled.\<close>

definition exampleNoContent :: "(string, string) ContextMenuProps" where
  "exampleNoContent = exampleProps\<lparr>content := ContentUndefined\<rparr>"

definition exampleRenderProp :: "(string, string) ContextMenuProps" where
  "exampleRenderProp = exampleNoContent\<lparr>children := ChildrenFunction\<rparr>"

definition exampleDisabled :: "(string, string) ContextMenuProps" where
  "exampleDisabled = exampleProps\<lparr>disabledProp := Some True\<rparr>"

definition exampleMarker :: string where
  "exampleMarker = ''bp-fixed-positioning-containing-block''"

text \<open>A container inside an element that carries the marker class and whose bounding
  rectangle starts at (50, 30).\<close>

definition exampleContainer :: Element where
  "exampleContainer =
     Element [''bp-context-menu''] \<lparr>left = 60, top' = 45\<rparr>
       (Some (Element [''panel'', exampleMarker] \<lparr>left = 50, top' = 30\<rparr>
          (Some (Element [''root''] \<lparr>left = 0, top' = 0\<rparr> None))))"

section \<open>Properties\<close>

subsection \<open>Auxiliary facts\<close>

lemmas setters =
  setIsOpen_def setMouseEvent_def setTargetOffset_def preventDefault_def persist_def
  callOnContextMenu_def

lemmas machine = run_def mount_def render_def callsSetters_def

lemmas examples =
  exampleEvents_def exampleWorld_def exampleProps_def exampleNoContent_def
  exampleRenderProp_def exampleDisabled_def exampleMarker_def exampleContainer_def
  initialState_def

lemma handler_prevented:
  "defaultPrevented (events w e) \<Longrightarrow> handleContextMenu marker p popover container e w = w"
  by (simp add: handleContextMenu_def)

lemma handler_state_handled:
  assumes "\<not> defaultPrevented (events w e)" and "\<not> disabled p"
    and "isFunction (children p) \<or> popover \<noteq> None"
  shows "state (handleContextMenu marker p popover container e w) =
     \<lparr>isOpen = True,
      targetOffset =
        Some \<lparr>left = clientX (events w e) - left (getContainingBlockOffset marker container),
              top' = clientY (events w e) - top' (getContainingBlockOffset marker container)\<rparr>,
      mouseEvent = Some e\<rparr>"
  using assms by (auto simp add: handleContextMenu_def Let_def setters split: option.splits)


lemma handler_skipped:
  assumes "disabled p \<or> \<not> isFunction (children p) \<and> popover = None"
  shows "state (handleContextMenu marker p popover container e w) = state w"
    and "events (handleContextMenu marker p popover container e w) = events w"
  using assms by (auto simp add: handleContextMenu_def Let_def setters split: option.splits)

lemma handler_calls:
  assumes "\<not> defaultPrevented (events w e)"
  shows "calls (handleContextMenu marker p popover container e w) =
     (case onContextMenu p of None \<Rightarrow> calls w | Some cb \<Rightarrow> calls w @ [(cb, e)])"
  using assms by (auto simp add: handleContextMenu_def Let_def setters split: option.splits)


subsection \<open>The popover's report\<close>

text \<open>
  C6. A report of "closed" sets \<open>isOpen\<close> to false and clears the retained mouse event
  (it touches nothing else); a report of "open" changes no state field.
\<close>

theorem handlePopoverInteraction_report:
  "isOpen (state (handlePopoverInteraction False w)) = False \<and>
   mouseEvent (state (handlePopoverInteraction False w)) = None \<and>
   targetOffset (state (handlePopoverInteraction False w)) = targetOffset (state w) \<and>
   handlePopoverInteraction True w = w"
  by (simp add: handlePopoverInteraction_def setters)

theorem handlePopoverInteraction_report_witness:
  "isOpen (state (handlePopoverInteraction False
      (renderedHandler exampleMarker exampleProps None 0 exampleWorld))) = False \<and>
   mouseEvent (state (handlePopoverInteraction False
      (renderedHandler exampleMarker exampleProps None 0 exampleWorld))) = None \<and>
   targetOffset (state (handlePopoverInteraction False
      (renderedHandler exampleMarker exampleProps None 0 exampleWorld))) =
     Some \<lparr>left = 120, top' = 80\<rparr> \<and>
   state (handlePopoverInteraction True
      (renderedHandler exampleMarker exampleProps None 0 exampleWorld)) =
     \<lparr>isOpen = True, targetOffset = Some \<lparr>left = 120, top' = 80\<rparr>, mouseEvent = Some 0\<rparr>"
  using handlePopoverInteraction_report
    [of "renderedHandler exampleMarker exampleProps None 0 exampleWorld"]
  by (simp add: renderedHandler_def handleContextMenu_def maybePopover_def menu_def
      disabled_def getContainingBlockOffset_def Let_def setters examples)

subsection \<open>Changes of the disabled flag\<close>

text \<open>
  C5. Every change of the \<open>disabled\<close> flag between two renders, in either direction,
  leaves \<open>isOpen = false\<close>: a menu that was open when the flag went from false to true
  is closed, and the change from true to false does not open the menu. Neither the
  commit of new props nor a report of the popover ever turns \<open>isOpen\<close> from false to
  true, so only a new trigger event opens the menu again.
\<close>

theorem disabled_change_closes:
  "(disabled next \<noteq> disabled prev \<longrightarrow> isOpen (state (commitProps prev next w)) = False) \<and>
   (\<not> disabled prev \<and> disabled next \<and> isOpen (state w) \<longrightarrow>
      isOpen (state (commitProps prev next w)) = False) \<and>
   (disabled prev \<and> \<not> disabled next \<longrightarrow> isOpen (state (commitProps prev next w)) = False) \<and>
   (\<not> isOpen (state w) \<longrightarrow>
      \<not> isOpen (state (commitProps prev next w)) \<and>
      \<not> isOpen (state (handlePopoverInteraction nextOpenState w)))"
  by (auto simp add: commitProps_def disabledEffect_def handlePopoverInteraction_def setters)

theorem disabled_change_closes_witness:
  "disabled exampleDisabled \<noteq> disabled exampleProps \<and>
   isOpen (state (renderedHandler exampleMarker exampleProps None 0 exampleWorld)) \<and>
   isOpen (state (commitProps exampleProps exampleDisabled
      (renderedHandler exampleMarker exampleProps None 0 exampleWorld))) = False \<and>
   isOpen (state (commitProps exampleDisabled exampleProps
      (commitProps exampleProps exampleDisabled
        (renderedHandler exampleMarker exampleProps None 0 exampleWorld)))) = False"
  using disabled_change_closes
    [of exampleDisabled exampleProps
        "renderedHandler exampleMarker exampleProps None 0 exampleWorld" False]
    disabled_change_closes
    [of exampleProps exampleDisabled
        "commitProps exampleProps exampleDisabled
           (renderedHandler exampleMarker exampleProps None 0 exampleWorld)" False]
  by (simp add: renderedHandler_def handleContextMenu_def maybePopover_def menu_def
      disabled_def getContainingBlockOffset_def Let_def setters examples)

text \<open>
  C10. The effect of a change of \<open>disabled\<close> sets only \<open>isOpen\<close>: \<open>mouseEvent\<close> and
  \<open>targetOffset\<close> keep their values, whereas a close reported by the popover also
  clears \<open>mouseEvent\<close>. So a state with \<open>isOpen = false\<close> and a defined \<open>mouseEvent\<close>
  is reached by a mounted component: by a trigger event followed by a render with
  \<open>disabled\<close> changed.
\<close>

theorem disabled_change_keeps_mouseEvent:
  "state (disabledEffect w) = (state w)\<lparr>isOpen := False\<rparr> \<and>
   mouseEvent (state (disabledEffect w)) = mouseEvent (state w) \<and>
   targetOffset (state (disabledEffect w)) = targetOffset (state w) \<and>
   (disabled next \<noteq> disabled prev \<longrightarrow>
      state (commitProps prev next w) = (state w)\<lparr>isOpen := False\<rparr>) \<and>
   mouseEvent (state (handlePopoverInteraction False w)) = None \<and>
   (\<exists>(p0 :: (string, string) ContextMenuProps) w0 marker container acts.
      state (instWorld (mount p0 w0)) = initialState \<and>
      \<not> isOpen (state (instWorld (run marker container (mount p0 w0) acts))) \<and>
      mouseEvent (state (instWorld (run marker container (mount p0 w0) acts))) \<noteq> None)"
proof -
  have "state (instWorld (mount exampleProps exampleWorld)) = initialState \<and>
      \<not> isOpen (state (instWorld (run exampleMarker None (mount exampleProps exampleWorld)
          [Trigger 0, Rerender exampleDisabled]))) \<and>
      mouseEvent (state (instWorld (run exampleMarker None (mount exampleProps exampleWorld)
          [Trigger 0, Rerender exampleDisabled]))) \<noteq> None"
    by (simp add: machine commitProps_def disabledEffect_def
        handleContextMenu_def maybePopover_def menu_def disabled_def
        getContainingBlockOffset_def Let_def setters examples)
  then have "\<exists>(p0 :: (string, string) ContextMenuProps) w0 marker container acts.
      state (instWorld (mount p0 w0)) = initialState \<and>
      \<not> isOpen (state (instWorld (run marker container (mount p0 w0) acts))) \<and>
      mouseEvent (state (instWorld (run marker container (mount p0 w0) acts))) \<noteq> None"
    by blast
  then show ?thesis
    by (simp add: commitProps_def disabledEffect_def handlePopoverInteraction_def setters)
qed

theorem disabled_change_keeps_mouseEvent_witness:
  "state (instWorld (run exampleMarker (Some exampleContainer) (mount exampleProps exampleWorld)
      [Trigger 0, Rerender exampleDisabled])) =
     \<lparr>isOpen = False, targetOffset = Some \<lparr>left = 70, top' = 50\<rparr>, mouseEvent = Some 0\<rparr> \<and>
   state (instWorld (run exampleMarker (Some exampleContainer) (mount exampleProps exampleWorld)
      [Trigger 0, PopoverInteraction False])) =
     \<lparr>isOpen = False, targetOffset = Some \<lparr>left = 70, top' = 50\<rparr>, mouseEvent = None\<rparr>"
  using disabled_change_keeps_mouseEvent
    [of "renderedHandler exampleMarker exampleProps (Some exampleContainer) 0 exampleWorld"
        exampleDisabled exampleProps]
  by (simp add: machine commitProps_def disabledEffect_def handlePopoverInteraction_def
      renderedHandler_def handleContextMenu_def maybePopover_def menu_def disabled_def
      getContainingBlockOffset_def Let_def setters examples)

subsection \<open>Content resolution\<close>

text \<open>
  C8. With \<open>disabled\<close> the resolved content is absent whatever the \<open>content\<close> option is;
  otherwise a content function is applied to the current content render props (the three
  state cells \<open>isOpen\<close>, \<open>targetOffset\<close>, \<open>mouseEvent\<close>), a static element is used as it
  is, and an undefined option gives no content. The Popover is rendered exactly when the
  resolved content is present, and then it wraps that content.
\<close>

theorem content_resolution:
  "(disabled p \<longrightarrow> menu p s = None) \<and>
   (\<not> disabled p \<and> content p = ContentFunction f \<longrightarrow>
      menu p s = f \<lparr>isOpen = isOpen s, targetOffset = targetOffset s, mouseEvent = mouseEvent s\<rparr>) \<and>
   (\<not> disabled p \<and> content p = ContentElement el \<longrightarrow> menu p s = Some el) \<and>
   (\<not> disabled p \<and> content p = ContentUndefined \<longrightarrow> menu p s = None) \<and>
   (menu p s = None \<longrightarrow> maybePopover p s = None) \<and>
   (menu p s = Some m \<longrightarrow> (\<exists>popover. maybePopover p s = Some popover \<and> popoverMenu popover = m))"
  by (cases s) (auto simp add: menu_def maybePopover_def)

theorem content_resolution_witness:
  "disabled exampleDisabled \<and> menu exampleDisabled initialState = None \<and>
   maybePopover exampleDisabled initialState = None \<and>
   \<not> disabled exampleProps \<and> menu exampleProps initialState = Some ''Menu'' \<and>
   menu (exampleProps\<lparr>content :=
      ContentFunction (\<lambda>c. if isOpen c then Some ''Open'' else None)\<rparr>) initialState = None \<and>
   menu (exampleProps\<lparr>content :=
      ContentFunction (\<lambda>c. if isOpen c then Some ''Open'' else None)\<rparr>)
      (initialState\<lparr>isOpen := True\<rparr>) = Some ''Open'' \<and>
   menu exampleNoContent initialState = None \<and>
   maybePopover exampleNoContent initialState = None"
  using content_resolution [of exampleDisabled initialState]
    content_resolution [of exampleProps initialState _ "''Menu''" "''Menu''"]
    content_resolution
      [of "exampleProps\<lparr>content := ContentFunction (\<lambda>c. if isOpen c then Some ''Open'' else None)\<rparr>"
          initialState "\<lambda>c. if isOpen c then Some ''Open'' else None"]
    content_resolution
      [of "exampleProps\<lparr>content := ContentFunction (\<lambda>c. if isOpen c then Some ''Open'' else None)\<rparr>"
          "initialState\<lparr>isOpen := True\<rparr>" "\<lambda>c. if isOpen c then Some ''Open'' else None"]
    content_resolution [of exampleNoContent initialState]
  by (simp add: disabled_def examples)

subsection \<open>The trigger handler\<close>

text \<open>
  C2, as the code has it. For every trigger event whose default is not already prevented,
  a supplied \<open>onContextMenu\<close> is called once with that event, whether or not the handler
  changed the state (whatever the props and the popover of the closure are); when none is
  supplied nothing is called. On an event
  whose default is already prevented the handler returns before the call: nothing changes
  and the callback is not called.
\<close>

theorem passthrough_callback:
  "(\<not> defaultPrevented (events w e) \<and> onContextMenu p = Some cb \<longrightarrow>
      calls (handleContextMenu marker p popover container e w) = calls w @ [(cb, e)]) \<and>
   (onContextMenu p = None \<longrightarrow>
      calls (handleContextMenu marker p popover container e w) = calls w) \<and>
   (defaultPrevented (events w e) \<longrightarrow>
      handleContextMenu marker p popover container e w = w \<and>
      calls (handleContextMenu marker p popover container e w) = calls w)"
  by (cases "defaultPrevented (events w e)") (simp_all add: handler_prevented handler_calls)

theorem passthrough_callback_witness:
  "calls (handleContextMenu exampleMarker exampleProps
      (maybePopover exampleProps initialState) None 0 exampleWorld) = [(''log'', 0)] \<and>
   isOpen (state (handleContextMenu exampleMarker exampleProps
      (maybePopover exampleProps initialState) None 0 exampleWorld)) \<and>
   calls (handleContextMenu exampleMarker exampleNoContent None None 0 exampleWorld) =
     [(''log'', 0)] \<and>
   state (handleContextMenu exampleMarker exampleNoContent None None 0 exampleWorld) =
     initialState \<and>
   calls (handleContextMenu exampleMarker exampleProps
      (maybePopover exampleProps initialState) None 1 exampleWorld) = []"
  using passthrough_callback
      [of exampleWorld 0 exampleProps "''log''" exampleMarker
          "maybePopover exampleProps initialState" None]
    passthrough_callback [of exampleWorld 0 exampleNoContent "''log''" exampleMarker None None]
    passthrough_callback
      [of exampleWorld 1 exampleProps "''log''" exampleMarker
          "maybePopover exampleProps initialState" None]
  by (simp add: handleContextMenu_def maybePopover_def menu_def
      disabled_def getContainingBlockOffset_def Let_def setters examples)

text \<open>The claim as stated fails on event 1 of the examples: a callback is supplied, the
  event's default is already prevented, and the log of calls stays empty.\<close>

theorem prevented_trigger_skips_callback:
  "onContextMenu exampleProps = Some ''log'' \<and>
   defaultPrevented (events exampleWorld 1) \<and>
   calls (renderedHandler exampleMarker exampleProps (Some exampleContainer) 1 exampleWorld) = []"
  by (simp add: renderedHandler_def handleContextMenu_def examples)

text \<open>
  C7, as the code has it. For every trigger event received while \<open>disabled\<close> is true, no
  state cell changes (so \<open>isOpen\<close> stays false if it was false) and the event is not
  touched; a supplied \<open>onContextMenu\<close> is called with the event when the event's default
  is not already prevented, and is not called when it is.
\<close>

theorem disabled_trigger_keeps_state:
  assumes "disabled p"
  shows "state (handleContextMenu marker p popover container e w) = state w \<and>
     events (handleContextMenu marker p popover container e w) = events w \<and>
     (\<not> defaultPrevented (events w e) \<and> onContextMenu p = Some cb \<longrightarrow>
        calls (handleContextMenu marker p popover container e w) = calls w @ [(cb, e)]) \<and>
     (defaultPrevented (events w e) \<longrightarrow>
        calls (handleContextMenu marker p popover container e w) = calls w)"
  using assms by (simp add: handler_skipped handler_calls handler_prevented)

theorem disabled_trigger_keeps_state_witness:
  "disabled exampleDisabled \<and>
   state (handleContextMenu exampleMarker exampleDisabled
      (maybePopover exampleDisabled initialState) (Some exampleContainer) 0 exampleWorld) =
     initialState \<and>
   defaultPrevented (events (handleContextMenu exampleMarker exampleDisabled
      (maybePopover exampleDisabled initialState) (Some exampleContainer) 0 exampleWorld) 0) =
     False \<and>
   calls (handleContextMenu exampleMarker exampleDisabled
      (maybePopover exampleDisabled initialState) (Some exampleContainer) 0 exampleWorld) =
     [(''log'', 0)]"
  using disabled_trigger_keeps_state
      [of exampleDisabled exampleMarker "maybePopover exampleDisabled initialState"
          "Some exampleContainer" 0 exampleWorld "''log''"]
  by (simp add: disabled_def examples)

text \<open>The claim as stated fails on event 1 of the examples: the component is disabled, a
  callback is supplied, and it is not called.\<close>

theorem disabled_prevented_trigger_skips_callback:
  "disabled exampleDisabled \<and>
   onContextMenu exampleDisabled = Some ''log'' \<and>
   defaultPrevented (events exampleWorld 1) \<and>
   state (renderedHandler exampleMarker exampleDisabled (Some exampleContainer) 1
     exampleWorld) = initialState \<and>
   calls (renderedHandler exampleMarker exampleDisabled (Some exampleContainer) 1
     exampleWorld) = []"
  by (simp add: renderedHandler_def handleContextMenu_def disabled_def examples)

subsection \<open>The offset of the containing block\<close>

lemma closest_find:
  "closest cls el = find (\<lambda>a. cls \<in> set (classList a)) (inclusiveAncestors el)"
  by (induction cls el rule: closest.induct) (auto split: option.splits)

lemma find_nearest:
  assumes "\<forall>x\<in>set pre. \<not> P x" and "P a"
  shows "find P (pre @ a # post) = Some a"
  using assms by (induction pre) auto

lemma closest_none:
  assumes "\<forall>a\<in>set (inclusiveAncestors el). marker \<notin> set (classList a)"
  shows "closest marker el = None"
  using assms by (auto simp add: closest_find find_None_iff)

lemma closest_nearest:
  assumes "inclusiveAncestors el = pre @ a # post"
    and "\<forall>x\<in>set pre. marker \<notin> set (classList x)" and "marker \<in> set (classList a)"
  shows "closest marker el = Some a"
  using assms by (simp add: closest_find find_nearest)

text \<open>
  C4. For a container of which neither the element itself nor any ancestor carries the
  marker class (and for a container ref that is still null), \<open>getContainingBlockOffset\<close>
  returns \<open>{left: 0, top: 0}\<close>, so a handled event sets the anchor offset to its raw
  \<open>clientX\<close>/\<open>clientY\<close>. For a container whose nearest element with the marker class, on
  the chain from itself upwards, is \<open>a\<close>, it returns the left/top of the bounding
  rectangle of \<open>a\<close>, so a handled event sets the anchor offset to \<open>clientX\<close>/\<open>clientY\<close>
  minus that left/top: an event at (120, 80) with that rectangle at (50, 30) gives
  \<open>{left: 70, top: 50}\<close>.
\<close>

theorem containing_block_offset:
  "getContainingBlockOffset marker None = \<lparr>left = 0, top' = 0\<rparr> \<and>
   ((\<forall>x\<in>set (inclusiveAncestors el). marker \<notin> set (classList x)) \<longrightarrow>
      getContainingBlockOffset marker (Some el) = \<lparr>left = 0, top' = 0\<rparr> \<and>
      (\<not> defaultPrevented (events w e) \<and> \<not> disabled p \<and>
       (isFunction (children p) \<or> popover \<noteq> None) \<longrightarrow>
         targetOffset (state (handleContextMenu marker p popover (Some el) e w)) =
           Some \<lparr>left = clientX (events w e), top' = clientY (events w e)\<rparr>)) \<and>
   (inclusiveAncestors el = pre @ a # post \<and>
    (\<forall>x\<in>set pre. marker \<notin> set (classList x)) \<and> marker \<in> set (classList a) \<longrightarrow>
      getContainingBlockOffset marker (Some el) = boundingClientRect a \<and>
      (\<not> defaultPrevented (events w e) \<and> \<not> disabled p \<and>
       (isFunction (children p) \<or> popover \<noteq> None) \<longrightarrow>
         targetOffset (state (handleContextMenu marker p popover (Some el) e w)) =
           Some \<lparr>left = clientX (events w e) - left (boundingClientRect a),
                 top' = clientY (events w e) - top' (boundingClientRect a)\<rparr> \<and>
         (clientX (events w e) = 120 \<and> clientY (events w e) = 80 \<and>
          boundingClientRect a = \<lparr>left = 50, top' = 30\<rparr> \<longrightarrow>
            targetOffset (state (handleContextMenu marker p popover (Some el) e w)) =
              Some \<lparr>left = 70, top' = 50\<rparr>)))"
proof -
  have none: "getContainingBlockOffset marker (Some el) = \<lparr>left = 0, top' = 0\<rparr>"
    if "\<forall>x\<in>set (inclusiveAncestors el). marker \<notin> set (classList x)"
    using closest_none [OF that] by (simp add: getContainingBlockOffset_def)
  have nearest: "getContainingBlockOffset marker (Some el) = boundingClientRect a"
    if "inclusiveAncestors el = pre @ a # post"
      and "\<forall>x\<in>set pre. marker \<notin> set (classList x)" and "marker \<in> set (classList a)"
    using closest_nearest [OF that] by (simp add: getContainingBlockOffset_def)
  have null: "getContainingBlockOffset marker None = \<lparr>left = 0, top' = 0\<rparr>"
    by (simp add: getContainingBlockOffset_def)
  show ?thesis
    using none nearest null by (simp add: handler_state_handled)
qed

theorem containing_block_offset_witness:
  "getContainingBlockOffset exampleMarker (Some exampleContainer) = \<lparr>left = 50, top' = 30\<rparr> \<and>
   targetOffset (state (handleContextMenu exampleMarker exampleProps
      (maybePopover exampleProps initialState) (Some exampleContainer) 0 exampleWorld)) =
     Some \<lparr>left = 70, top' = 50\<rparr> \<and>
   getContainingBlockOffset exampleMarker
      (Some (Element [''bp-context-menu''] \<lparr>left = 60, top' = 45\<rparr> None)) =
     \<lparr>left = 0, top' = 0\<rparr> \<and>
   targetOffset (state (handleContextMenu exampleMarker exampleProps
      (maybePopover exampleProps initialState)
      (Some (Element [''bp-context-menu''] \<lparr>left = 60, top' = 45\<rparr> None)) 0 exampleWorld)) =
     Some \<lparr>left = 120, top' = 80\<rparr>"
  using containing_block_offset
      [of exampleMarker exampleContainer exampleWorld 0 exampleProps
          "maybePopover exampleProps initialState"
          "[Element [''bp-context-menu''] \<lparr>left = 60, top' = 45\<rparr>
              (Some (Element [''panel'', exampleMarker] \<lparr>left = 50, top' = 30\<rparr>
                 (Some (Element [''root''] \<lparr>left = 0, top' = 0\<rparr> None))))]"
          "Element [''panel'', exampleMarker] \<lparr>left = 50, top' = 30\<rparr>
             (Some (Element [''root''] \<lparr>left = 0, top' = 0\<rparr> None))"
          "[Element [''root''] \<lparr>left = 0, top' = 0\<rparr> None]"]
    containing_block_offset
      [of exampleMarker "Element [''bp-context-menu''] \<lparr>left = 60, top' = 45\<rparr> None"
          exampleWorld 0 exampleProps "maybePopover exampleProps initialState"]
  by (simp add: maybePopover_def menu_def disabled_def examples)

subsection \<open>The key of the Popover\<close>

lemma digitValue_digitChar: "d < 10 \<Longrightarrow> digitValue (digitChar d) = d"
  by (simp add: digitValue_def digitChar_def)

lemma digitChar_neq: "CHR ''x'' \<noteq> digitChar d" "CHR ''-'' \<noteq> digitChar d"
  by (simp_all add: digitChar_def)

lemma digits_no_x: "CHR ''x'' \<notin> set (digits n)"
proof (induction n rule: digits.induct)
  case (1 n)
  show ?case
  proof (cases "n < 10")
    case True
    then have "digits n = [digitChar n]" by (subst digits.simps) simp
    then show ?thesis by (simp add: digitChar_neq)
  next
    case False
    then have "digits n = digits (n div 10) @ [digitChar (n mod 10)]"
      by (subst digits.simps) simp
    with 1 False show ?thesis by (simp add: digitChar_neq)
  qed
qed

lemma digits_no_minus: "CHR ''-'' \<notin> set (digits n)"
proof (induction n rule: digits.induct)
  case (1 n)
  show ?case
  proof (cases "n < 10")
    case True
    then have "digits n = [digitChar n]" by (subst digits.simps) simp
    then show ?thesis by (simp add: digitChar_neq)
  next
    case False
    then have "digits n = digits (n div 10) @ [digitChar (n mod 10)]"
      by (subst digits.simps) simp
    with 1 False show ?thesis by (simp add: digitChar_neq)
  qed
qed

lemma digits_nonempty: "digits n \<noteq> []"
  by (subst digits.simps) simp

lemma decimalValue_digits: "decimalValue (digits n) = n"
proof (induction n rule: digits.induct)
  case (1 n)
  show ?case
  proof (cases "n < 10")
    case True
    then have "digits n = [digitChar n]" by (subst digits.simps) simp
    with True show ?thesis by (simp add: decimalValue_def digitValue_digitChar)
  next
    case False
    then have eq: "digits n = digits (n div 10) @ [digitChar (n mod 10)]"
      by (subst digits.simps) simp
    have "decimalValue (digits n) = 10 * decimalValue (digits (n div 10)) + digitValue (digitChar (n mod 10))"
      unfolding eq by (simp add: decimalValue_def)
    with 1 False show ?thesis by (simp add: digitValue_digitChar)
  qed
qed

lemma digits_inj: "digits m = digits n \<Longrightarrow> m = n"
  by (metis decimalValue_digits)

lemma numberToString_no_x: "CHR ''x'' \<notin> set (numberToString i)"
  by (simp add: numberToString_def digits_no_x)

lemma numberToString_inj: "numberToString i = numberToString j \<Longrightarrow> i = j"
proof -
  assume eq: "numberToString i = numberToString j"
  have hd_neg: "\<And>k. k < 0 \<Longrightarrow> hd (numberToString k) = CHR ''-''"
    by (simp add: numberToString_def)
  have hd_pos: "\<And>k. \<not> k < 0 \<Longrightarrow> hd (numberToString k) \<noteq> CHR ''-''"
  proof -
    fix k :: int
    assume "\<not> k < 0"
    then have "numberToString k = digits (nat k)" by (simp add: numberToString_def)
    moreover have "hd (digits (nat k)) \<in> set (digits (nat k))"
      using digits_nonempty by (rule hd_in_set)
    ultimately show "hd (numberToString k) \<noteq> CHR ''-''"
      using digits_no_minus [of "nat k"] by metis
  qed
  show "i = j"
  proof (cases "i < 0")
    case True
    with eq hd_neg [of i] hd_pos [of j] have "j < 0" by metis
    with True eq have "digits (nat (- i)) = digits (nat (- j))"
      by (simp add: numberToString_def)
    then have "nat (- i) = nat (- j)" by (rule digits_inj)
    with True \<open>j < 0\<close> show ?thesis by simp
  next
    case False
    with eq hd_neg [of j] hd_pos [of i] have "\<not> j < 0" by metis
    with False eq have "digits (nat i) = digits (nat j)"
      by (simp add: numberToString_def)
    then have "nat i = nat j" by (rule digits_inj)
    with False \<open>\<not> j < 0\<close> show ?thesis by simp
  qed
qed

lemma split_at_x:
  assumes "a @ CHR ''x'' # b = c @ CHR ''x'' # d"
    and "CHR ''x'' \<notin> set a" and "CHR ''x'' \<notin> set c"
  shows "a = c \<and> b = d"
proof -
  have "takeWhile (\<lambda>ch. ch \<noteq> CHR ''x'') (a @ CHR ''x'' # b) = a"
    using assms(2) by (auto simp add: takeWhile_tail)
  moreover have "takeWhile (\<lambda>ch. ch \<noteq> CHR ''x'') (c @ CHR ''x'' # d) = c"
    using assms(3) by (auto simp add: takeWhile_tail)
  ultimately have "a = c" using assms(1) by simp
  with assms(1) show ?thesis by simp
qed

lemma getPopoverKey_inj: "getPopoverKey a = getPopoverKey b \<Longrightarrow> a = b"
proof (cases a)
  case None
  assume eq: "getPopoverKey a = getPopoverKey b"
  show ?thesis
  proof (cases b)
    case None
    with \<open>a = None\<close> show ?thesis by simp
  next
    case (Some t)
    have "CHR ''x'' \<in> set (getPopoverKey b)" using Some by (simp add: getPopoverKey_def)
    moreover have "CHR ''x'' \<notin> set (getPopoverKey a)" using None by (simp add: getPopoverKey_def)
    ultimately show ?thesis using eq by simp
  qed
next
  case (Some s)
  assume eq: "getPopoverKey a = getPopoverKey b"
  show ?thesis
  proof (cases b)
    case None
    have "CHR ''x'' \<in> set (getPopoverKey a)" using Some by (simp add: getPopoverKey_def)
    moreover have "CHR ''x'' \<notin> set (getPopoverKey b)" using None by (simp add: getPopoverKey_def)
    ultimately show ?thesis using eq by simp
  next
    case (Some t)
    with \<open>a = Some s\<close> eq
    have "numberToString (left s) @ CHR ''x'' # numberToString (top' s)
        = numberToString (left t) @ CHR ''x'' # numberToString (top' t)"
      by (simp add: getPopoverKey_def)
    then have "numberToString (left s) = numberToString (left t) \<and>
               numberToString (top' s) = numberToString (top' t)"
      by (rule split_at_x) (rule numberToString_no_x)+
    then have "left s = left t \<and> top' s = top' t"
      using numberToString_inj by blast
    then have "s = t" by simp
    with Some \<open>a = Some s\<close> show ?thesis by simp
  qed
qed

text \<open>
  C9. The key is \<open>default\<close> for an undefined anchor offset and the decimal numerals of
  \<open>left\<close> and \<open>top\<close> around an \<open>x\<close> otherwise, and it is the key of the Popover that
  a render creates. Two anchor offsets (defined or not) have the same key if and only if
  they are equal; the offset \<open>{left: 10, top: 20}\<close> has the key \<open>10x20\<close>.
\<close>

theorem popover_key:
  "getPopoverKey None = ''default'' \<and>
   getPopoverKey (Some off) = numberToString (left off) @ ''x'' @ numberToString (top' off) \<and>
   (getPopoverKey a = getPopoverKey b \<longleftrightarrow> a = b) \<and>
   getPopoverKey (Some \<lparr>left = 10, top' = 20\<rparr>) = ''10x20'' \<and>
   (maybePopover p s = Some popover \<longrightarrow> key popover = getPopoverKey (targetOffset s))"
proof -
  have "getPopoverKey (Some \<lparr>left = 10, top' = 20\<rparr>) = ''10x20''"
    by (simp add: getPopoverKey_def numberToString_def digits.simps digitChar_def)
  moreover have "getPopoverKey a = getPopoverKey b \<longleftrightarrow> a = b"
    using getPopoverKey_inj by blast
  moreover have "maybePopover p s = Some popover \<longrightarrow> key popover = getPopoverKey (targetOffset s)"
    by (auto simp add: maybePopover_def split: option.splits)
  ultimately show ?thesis
    by (simp add: getPopoverKey_def)
qed

theorem popover_key_witness:
  "getPopoverKey (targetOffset (state exampleWorld)) = ''default'' \<and>
   getPopoverKey (targetOffset (state (instWorld (run exampleMarker (Some exampleContainer)
      (mount exampleProps exampleWorld) [Trigger 0])))) = ''70x50'' \<and>
   getPopoverKey (targetOffset (state (instWorld (run exampleMarker (Some exampleContainer)
      (mount exampleProps exampleWorld) [Trigger 0, PopoverInteraction False, Trigger 2])))) =
     ''70x50'' \<and>
   getPopoverKey (targetOffset (state (instWorld (run exampleMarker (Some exampleContainer)
      (mount exampleProps exampleWorld) [Trigger 0, PopoverInteraction False, Trigger 3])))) =
     ''10x20'' \<and>
   getPopoverKey (targetOffset (state (instWorld (run exampleMarker None
      (mount exampleProps exampleWorld) [Trigger 3])))) = ''60x50'' \<and>
   maybePopover exampleProps (state (instWorld (run exampleMarker (Some exampleContainer)
      (mount exampleProps exampleWorld) [Trigger 0, PopoverInteraction False, Trigger 3]))) =
     Some \<lparr>key = ''10x20'', popoverIsOpen = True, popoverMenu = ''Menu'',
           transitionDuration = 100\<rparr>"
  using popover_key
      [of "\<lparr>left = 70, top' = 50\<rparr>" "Some \<lparr>left = 70, top' = 50\<rparr>"
          "Some \<lparr>left = 10, top' = 20\<rparr>" exampleProps
          "state (instWorld (run exampleMarker (Some exampleContainer)
             (mount exampleProps exampleWorld) [Trigger 0, PopoverInteraction False, Trigger 3]))"
          "\<lparr>key = ''10x20'', popoverIsOpen = True, popoverMenu = ''Menu'',
            transitionDuration = 100\<rparr>"]
  by (simp add: machine disabledEffect_def handlePopoverInteraction_def handleContextMenu_def
      maybePopover_def menu_def disabled_def getContainingBlockOffset_def getPopoverKey_def
      numberToString_def digits.simps digitChar_def Let_def setters examples)

subsection \<open>The memoised handler\<close>

lemma render_fields [simp]:
  "instWorld (render c p i) = instWorld i" "instProps (render c p i) = p"
  by (simp_all add: render_def Let_def)




lemma opensInvariant_world [simp]:
  "opensInvariant (i\<lparr>instWorld := w\<rparr>) = opensInvariant i"
  by (simp add: opensInvariant_def)

















text \<open>
  The memoised closure can also hold a popover that the current props no longer give: a
  component mounted with static content, opened by event 0, closed by the popover and
  then rendered without content still has the closure of the render after event 0, and
  event 3 sets the state cells although there is no content and children is plain.
\<close>

lemma stale_closure_sets_state:
  "instProps (run exampleMarker (Some exampleContainer) (mount exampleProps exampleWorld)
      [Trigger 0, PopoverInteraction False, Rerender exampleNoContent]) = exampleNoContent \<and>
   state (instWorld (run exampleMarker (Some exampleContainer) (mount exampleProps exampleWorld)
      [Trigger 0, PopoverInteraction False, Rerender exampleNoContent, Trigger 3])) =
     \<lparr>isOpen = True, targetOffset = Some \<lparr>left = 10, top' = 20\<rparr>, mouseEvent = Some 3\<rparr>"
  by (simp add: machine commitProps_def disabledEffect_def handlePopoverInteraction_def
      handleContextMenu_def maybePopover_def menu_def disabled_def
      getContainingBlockOffset_def Let_def setters examples)

end
